theory Spec2Isabelle
  imports Complex_Main
begin

section \<open>Numbers\<close>

text \<open>
  The TypeScript sources compute with JavaScript numbers. They are embedded as the real
  numbers: rounding and overflow of IEEE doubles are outside this development. A JavaScript
  division never raises, but a zero divisor produces a value that is no real number (NaN or
  an infinity); wherever a divisor of the source can be zero the embedding has an explicit
  branch for it, so that HOL's convention \<open>x / 0 = 0\<close> is never relied upon.
\<close>

section \<open>Quality tiers (utils/qualityTiers.ts)\<close>

datatype QualityTier = LOW | MEDIUM | HIGH

record QualityConfig =
  particles :: nat
  renderScale :: real
  dprCapMobile :: real
  dprCapDesktop :: real
  targetFpsMid :: real
  targetFpsLow :: real

fun QUALITY_CONFIG :: "QualityTier \<Rightarrow> QualityConfig" where
  "QUALITY_CONFIG LOW =
     \<lparr>particles = 5000, renderScale = 8 / 10, dprCapMobile = 15 / 10, dprCapDesktop = 2,
      targetFpsMid = 45, targetFpsLow = 30\<rparr>"
| "QUALITY_CONFIG MEDIUM =
     \<lparr>particles = 20000, renderScale = 9 / 10, dprCapMobile = 15 / 10, dprCapDesktop = 2,
      targetFpsMid = 45, targetFpsLow = 30\<rparr>"
| "QUALITY_CONFIG HIGH =
     \<lparr>particles = 50000, renderScale = 1, dprCapMobile = 15 / 10, dprCapDesktop = 2,
      targetFpsMid = 45, targetFpsLow = 30\<rparr>"

definition getQualityConfig :: "QualityTier \<Rightarrow> QualityConfig" where
  "getQualityConfig t = QUALITY_CONFIG t"

definition clampDpr :: "real \<Rightarrow> bool \<Rightarrow> real" where
  "clampDpr d mobile =
     (let maxDpr = (if mobile then dprCapMobile (QUALITY_CONFIG LOW)
                    else dprCapDesktop (QUALITY_CONFIG LOW))
      in min d maxDpr)"

section \<open>Device capabilities (utils/deviceCaps.ts, two revisions)\<close>

text \<open>
  The repository holds two revisions of \<^verbatim>\<open>deviceCaps.ts\<close>. The one the unit tests
  exercise keeps a second mobile threshold at 35 fps; the other one (suffix \<open>_rev\<close> below)
  splits mobile devices at 50 fps only. The desktop branches agree.
\<close>

definition decideTier :: "real \<Rightarrow> bool \<Rightarrow> QualityTier" where
  "decideTier fps mobile =
     (if mobile then
        (if fps \<ge> 50 then MEDIUM
         else if fps \<ge> 35 then MEDIUM
         else LOW)
      else
        (if fps \<ge> 55 then HIGH
         else if fps \<ge> 40 then MEDIUM
         else LOW))"

definition decideTier_rev :: "real \<Rightarrow> bool \<Rightarrow> QualityTier" where
  "decideTier_rev fps mobile =
     (if mobile then (if fps \<ge> 50 then MEDIUM else LOW)
      else if fps \<ge> 55 then HIGH
      else if fps \<ge> 40 then MEDIUM
      else LOW)"

text \<open>
  The browser globals the evaluator reads. \<open>hasWindow\<close> and \<open>hasDocument\<close> are the two
  \<^verbatim>\<open>typeof\<close> tests of \<^verbatim>\<open>isBrowser\<close>; \<open>navigatorUA\<close> is \<^verbatim>\<open>navigator.userAgent\<close>, absent
  when the global \<^verbatim>\<open>navigator\<close> is not defined (reading it then throws a ReferenceError);
  \<open>devicePixelRatio\<close> is \<^verbatim>\<open>window.devicePixelRatio\<close>; \<open>webgl\<close> is what the canvas probe
  meets; \<open>measuredFps\<close> is the number the requestAnimationFrame benchmark resolves to.
\<close>

datatype WebGLProbe =
    ProbeThrows "string option"
  | ProbeContexts bool bool bool

record Env =
  hasWindow :: bool
  hasDocument :: bool
  navigatorUA :: "string option"
  devicePixelRatio :: real
  webgl :: WebGLProbe
  measuredFps :: real

record DeviceCaps =
  isWebGLAvailable :: bool
  webglVersion :: nat
  reason :: "string option"
  isMobile :: bool
  dpr :: real
  clampedDpr :: real
  fpsEstimate :: "real option"
  tier :: QualityTier
  caps_config :: QualityConfig

record WebGLResult =
  available :: bool
  version :: nat
  failure :: "string option"

definition isBrowser :: "Env \<Rightarrow> bool" where
  "isBrowser env = (hasWindow env \<and> hasDocument env)"

definition toLowerCase :: "string \<Rightarrow> string" where
  "toLowerCase s =
     map (\<lambda>c. if (65::nat) \<le> of_char c \<and> of_char c \<le> (90::nat)
                then char_of (of_char c + (32::nat)) else c) s"

fun startsWith :: "string \<Rightarrow> string \<Rightarrow> bool" where
  "startsWith s [] = True"
| "startsWith [] (k # ks) = False"
| "startsWith (c # cs) (k # ks) = (c = k \<and> startsWith cs ks)"

fun includesStr :: "string \<Rightarrow> string \<Rightarrow> bool" where
  "includesStr [] k = (k = [])"
| "includesStr (c # cs) k = (startsWith (c # cs) k \<or> includesStr cs k)"

text \<open>\<open>Inl\<close> is a thrown exception (for the asynchronous evaluator: a rejected promise).\<close>

definition isMobileUA :: "Env \<Rightarrow> string + bool" where
  "isMobileUA env =
     (if \<not> isBrowser env then Inr False
      else case navigatorUA env of
        None \<Rightarrow> Inl ''ReferenceError: navigator is not defined''
      | Some agent \<Rightarrow>
          (let ua = toLowerCase agent;
               mobileKeywords = [''mobile'', ''android'', ''iphone'', ''ipod'']
           in Inr (list_ex (\<lambda>keyword. includesStr ua keyword) mobileKeywords
                   \<and> \<not> includesStr ua ''tablet'' \<and> \<not> includesStr ua ''ipad'')))"

definition detectWebGLVersion :: "Env \<Rightarrow> WebGLResult" where
  "detectWebGLVersion env =
     (if \<not> isBrowser env
      then \<lparr>available = False, version = 0, failure = Some ''SSR environment''\<rparr>
      else case webgl env of
        ProbeThrows msg \<Rightarrow>
          \<lparr>available = False, version = 0,
           failure = Some (''WebGL detection failed: '' @
                           (case msg of Some m \<Rightarrow> m | None \<Rightarrow> ''Unknown error''))\<rparr>
      | ProbeContexts gl2 gl1 experimental \<Rightarrow>
          (if gl2 then \<lparr>available = True, version = 2, failure = None\<rparr>
           else if gl1 \<or> experimental then \<lparr>available = True, version = 1, failure = None\<rparr>
           else \<lparr>available = False, version = 0, failure = Some ''WebGL not supported''\<rparr>))"

definition benchmarkFps :: "Env \<Rightarrow> real" where
  "benchmarkFps env = (if \<not> isBrowser env then 30 else measuredFps env)"

text \<open>
  \<^verbatim>\<open>evaluateDeviceCaps\<close> is asynchronous; its model returns what the promise settles to.
  The two revisions have the same text and call their own \<^verbatim>\<open>decideTier\<close>.
\<close>

definition evaluateDeviceCaps :: "Env \<Rightarrow> string + DeviceCaps" where
  "evaluateDeviceCaps env =
     (if \<not> isBrowser env then
        Inr \<lparr>isWebGLAvailable = False, webglVersion = 0,
             reason = Some ''Server-side rendering environment'',
             isMobile = False, dpr = 1, clampedDpr = 1, fpsEstimate = Some 0,
             tier = LOW, caps_config = getQualityConfig LOW\<rparr>
      else case isMobileUA env of
        Inl exn \<Rightarrow> Inl exn
      | Inr mobile \<Rightarrow>
          (let d = (if devicePixelRatio env = 0 then 1 else devicePixelRatio env);
               clamped = clampDpr d mobile;
               webglResult = detectWebGLVersion env
           in if \<not> available webglResult then
                Inr \<lparr>isWebGLAvailable = False, webglVersion = version webglResult,
                     reason = Some (case failure webglResult of
                                      None \<Rightarrow> ''WebGL detection failed''
                                    | Some r \<Rightarrow> (if r = [] then ''WebGL detection failed'' else r)),
                     isMobile = mobile, dpr = d, clampedDpr = clamped,
                     fpsEstimate = Some 0, tier = LOW, caps_config = getQualityConfig LOW\<rparr>
              else
                (let fps = benchmarkFps env;
                     t = decideTier fps mobile
                 in Inr \<lparr>isWebGLAvailable = True, webglVersion = version webglResult,
                         reason = None, isMobile = mobile, dpr = d, clampedDpr = clamped,
                         fpsEstimate = Some fps, tier = t, caps_config = getQualityConfig t\<rparr>)))"

definition evaluateDeviceCaps_rev :: "Env \<Rightarrow> string + DeviceCaps" where
  "evaluateDeviceCaps_rev env =
     (if \<not> isBrowser env then
        Inr \<lparr>isWebGLAvailable = False, webglVersion = 0,
             reason = Some ''Server-side rendering environment'',
             isMobile = False, dpr = 1, clampedDpr = 1, fpsEstimate = Some 0,
             tier = LOW, caps_config = getQualityConfig LOW\<rparr>
      else case isMobileUA env of
        Inl exn \<Rightarrow> Inl exn
      | Inr mobile \<Rightarrow>
          (let d = (if devicePixelRatio env = 0 then 1 else devicePixelRatio env);
               clamped = clampDpr d mobile;
               webglResult = detectWebGLVersion env
           in if \<not> available webglResult then
                Inr \<lparr>isWebGLAvailable = False, webglVersion = version webglResult,
                     reason = Some (case failure webglResult of
                                      None \<Rightarrow> ''WebGL detection failed''
                                    | Some r \<Rightarrow> (if r = [] then ''WebGL detection failed'' else r)),
                     isMobile = mobile, dpr = d, clampedDpr = clamped,
                     fpsEstimate = Some 0, tier = LOW, caps_config = getQualityConfig LOW\<rparr>
              else
                (let fps = benchmarkFps env;
                     t = decideTier_rev fps mobile
                 in Inr \<lparr>isWebGLAvailable = True, webglVersion = version webglResult,
                         reason = None, isMobile = mobile, dpr = d, clampedDpr = clamped,
                         fpsEstimate = Some fps, tier = t, caps_config = getQualityConfig t\<rparr>)))"

section \<open>Physics helpers (utils/physics.ts and the copies local to the interaction store)\<close>

text \<open>
  A computed value that is no real number: the JavaScript result is NaN or an infinity.
\<close>

datatype NotReal = IsNaN | IsInfinite

definition js_div :: "real \<Rightarrow> real \<Rightarrow> NotReal + real" where
  "js_div a b = (if b \<noteq> 0 then Inr (a / b) else if a = 0 then Inl IsNaN else Inl IsInfinite)"

text \<open>\<^verbatim>\<open>Math.pow\<close>, by the cases of the language standard that real arguments can meet.\<close>

definition Math_pow :: "real \<Rightarrow> real \<Rightarrow> NotReal + real" where
  "Math_pow b e =
     (if e = 0 then Inr 1
      else if b > 0 then Inr (b powr e)
      else if b = 0 then (if e > 0 then Inr 0 else Inl IsInfinite)
      else if e \<in> \<int> then Inr (b powi \<lfloor>e\<rfloor>)
      else Inl IsNaN)"

definition degToRad :: "real \<Rightarrow> real" where
  "degToRad deg = (deg * pi) / 180"

definition clamp :: "real \<Rightarrow> real \<Rightarrow> real \<Rightarrow> real" where
  "clamp v mn mx = min (max v mn) mx"

text \<open>
  \<^verbatim>\<open>wrapTheta\<close> is two \<^verbatim>\<open>while\<close> loops in sequence. The first loop is the same in both
  copies; the second one tests \<^verbatim>\<open>wrapped <= -Math.PI\<close> in \<^verbatim>\<open>utils/physics.ts\<close> and
  \<^verbatim>\<open>wrapped < -Math.PI\<close> in the interaction store.
\<close>

function wrapTheta_loop1 :: "real \<Rightarrow> real" where
  "wrapTheta_loop1 wrapped =
     (if wrapped > pi then wrapTheta_loop1 (wrapped - 2 * pi) else wrapped)"
  by pat_completeness auto
termination
proof (relation "measure (\<lambda>w. nat \<lceil>(w - pi) / (2 * pi)\<rceil>)")
  show "wf (measure (\<lambda>w. nat \<lceil>(w - pi) / (2 * pi)\<rceil>))" by simp
next
  fix wrapped :: real
  assume gt: "pi < wrapped"
  have eq: "(wrapped - 2 * pi - pi) / (2 * pi) = (wrapped - pi) / (2 * pi) - 1"
    by (simp add: field_simps)
  have pos: "0 < (wrapped - pi) / (2 * pi)" using gt by simp
  then have "0 < \<lceil>(wrapped - pi) / (2 * pi)\<rceil>" by simp
  then show "(wrapped - 2 * pi, wrapped) \<in> measure (\<lambda>w. nat \<lceil>(w - pi) / (2 * pi)\<rceil>)"
    unfolding in_measure eq by simp
qed


function wrapTheta_store_loop2 :: "real \<Rightarrow> real" where
  "wrapTheta_store_loop2 wrapped =
     (if wrapped < - pi then wrapTheta_store_loop2 (wrapped + 2 * pi) else wrapped)"
  by pat_completeness auto
termination
proof (relation "measure (\<lambda>w. nat \<lceil>(- pi - w) / (2 * pi)\<rceil>)")
  show "wf (measure (\<lambda>w. nat \<lceil>(- pi - w) / (2 * pi)\<rceil>))" by simp
next
  fix wrapped :: real
  assume lt: "wrapped < - pi"
  have eq: "(- pi - (wrapped + 2 * pi)) / (2 * pi) = (- pi - wrapped) / (2 * pi) - 1"
    by (simp add: field_simps)
  have "0 < (- pi - wrapped) / (2 * pi)" using lt by simp
  then have "0 < \<lceil>(- pi - wrapped) / (2 * pi)\<rceil>" by simp
  then show "(wrapped + 2 * pi, wrapped) \<in> measure (\<lambda>w. nat \<lceil>(- pi - w) / (2 * pi)\<rceil>)"
    unfolding in_measure eq by simp
qed

declare wrapTheta_loop1.simps [simp del]
declare wrapTheta_store_loop2.simps [simp del]


definition wrapTheta_store :: "real \<Rightarrow> real" where
  "wrapTheta_store theta = wrapTheta_store_loop2 (wrapTheta_loop1 theta)"

section \<open>Interaction store (state/interactionStore.ts)\<close>

datatype InteractionState = IDLE | DRAGGING | INERTIA

record CameraSpherical =
  theta :: real
  phi :: real

record InteractionConfig =
  dragSensitivity :: real
  damping :: real
  minZoom :: real
  maxZoom :: real
  minElevationDeg :: real
  maxElevationDeg :: real

text \<open>The velocity of the store is an object of the same two fields as a camera position.\<close>

record InteractionState_Internal =
  state :: InteractionState
  current :: CameraSpherical
  target :: CameraSpherical
  zoom :: real
  targetZoom :: real
  velocity :: CameraSpherical
  lastTs :: "real option"
  isPointerCaptured :: bool
  isKeyboardFocused :: bool
  config :: InteractionConfig

record ElevationLimits =
  minPhi :: real
  maxPhi :: real

definition DEFAULT_CONFIG :: InteractionConfig where
  "DEFAULT_CONFIG =
     \<lparr>dragSensitivity = 5 / 10, damping = 95 / 100, minZoom = 2, maxZoom = 10,
      minElevationDeg = - 60, maxElevationDeg = 60\<rparr>"


definition VELOCITY_EPSILON :: real where
  "VELOCITY_EPSILON = 1 / 10000"

definition WHEEL_ZOOM_SENSITIVITY :: real where
  "WHEEL_ZOOM_SENSITIVITY = 1 / 10"

definition ZOOM_EASE_LAMBDA :: real where
  "ZOOM_EASE_LAMBDA = 4"

definition KEYBOARD_NUDGE_SPEED :: real where
  "KEYBOARD_NUDGE_SPEED = 1"

definition isNearZero :: "CameraSpherical \<Rightarrow> bool" where
  "isNearZero v = (\<bar>theta v\<bar> < VELOCITY_EPSILON \<and> \<bar>phi v\<bar> < VELOCITY_EPSILON)"

definition easeExp :: "real \<Rightarrow> real \<Rightarrow> real \<Rightarrow> real \<Rightarrow> real" where
  "easeExp cur tgt lambdaPerSec dtMs =
     (let factor = 1 - exp (- lambdaPerSec * (dtMs / 1000))
      in cur + (tgt - cur) * factor)"

definition getElevationLimits :: "InteractionConfig \<Rightarrow> ElevationLimits" where
  "getElevationLimits cfg =
     \<lparr>minPhi = degToRad (minElevationDeg cfg), maxPhi = degToRad (maxElevationDeg cfg)\<rparr>"

definition initialState :: InteractionState_Internal where
  "initialState =
     \<lparr>state = IDLE,
      current = \<lparr>theta = 0, phi = 0\<rparr>,
      target = \<lparr>theta = 0, phi = 0\<rparr>,
      zoom = 4, targetZoom = 4,
      velocity = \<lparr>theta = 0, phi = 0\<rparr>,
      lastTs = None,
      isPointerCaptured = False, isKeyboardFocused = False,
      config = DEFAULT_CONFIG\<rparr>"

text \<open>
  Every action reads the store with \<^verbatim>\<open>get()\<close> and merges a partial object into it with
  \<^verbatim>\<open>set\<close>: the model takes the store and returns the updated one. \<^verbatim>\<open>setConfig\<close> merges a
  partial configuration; absent fields are \<open>None\<close>.
\<close>

record PartialConfig =
  p_dragSensitivity :: "real option"
  p_damping :: "real option"
  p_minZoom :: "real option"
  p_maxZoom :: "real option"
  p_minElevationDeg :: "real option"
  p_maxElevationDeg :: "real option"

definition merge :: "'a \<Rightarrow> 'a option \<Rightarrow> 'a" where
  "merge old new = (case new of None \<Rightarrow> old | Some v \<Rightarrow> v)"

definition setConfig :: "InteractionState_Internal \<Rightarrow> PartialConfig \<Rightarrow> InteractionState_Internal" where
  "setConfig st partial =
     st\<lparr>config :=
          \<lparr>dragSensitivity = merge (dragSensitivity (config st)) (p_dragSensitivity partial),
           damping = merge (damping (config st)) (p_damping partial),
           minZoom = merge (minZoom (config st)) (p_minZoom partial),
           maxZoom = merge (maxZoom (config st)) (p_maxZoom partial),
           minElevationDeg = merge (minElevationDeg (config st)) (p_minElevationDeg partial),
           maxElevationDeg = merge (maxElevationDeg (config st)) (p_maxElevationDeg partial)\<rparr>\<rparr>"

definition beginDrag :: "InteractionState_Internal \<Rightarrow> real \<Rightarrow> InteractionState_Internal" where
  "beginDrag st ts =
     st\<lparr>state := DRAGGING, lastTs := Some ts, velocity := \<lparr>theta = 0, phi = 0\<rparr>\<rparr>"


definition endDrag :: "InteractionState_Internal \<Rightarrow> real \<Rightarrow> InteractionState_Internal" where
  "endDrag st ts =
     (if isNearZero (velocity st) then st\<lparr>state := IDLE\<rparr>
      else st\<lparr>state := INERTIA, lastTs := Some ts\<rparr>)"

definition tickInertia ::
  "InteractionState_Internal \<Rightarrow> real \<Rightarrow> NotReal + InteractionState_Internal" where
  "tickInertia st dtMs =
     (if state st \<noteq> INERTIA then Inr st
      else
        (let cfg = config st;
             lim = getElevationLimits cfg;
             dtSec = dtMs / 1000
         in case Math_pow (damping cfg) (dtMs / (1667 / 100)) of
              Inl e \<Rightarrow> Inl e
            | Inr dampingFactor \<Rightarrow>
                (let newVelocity = \<lparr>theta = theta (velocity st) * dampingFactor,
                                    phi = phi (velocity st) * dampingFactor\<rparr>;
                     newTarget =
                       \<lparr>theta = wrapTheta_store (theta (target st) + theta newVelocity * dtSec),
                        phi = clamp (phi (target st) + phi newVelocity * dtSec)
                                (minPhi lim) (maxPhi lim)\<rparr>
                 in if isNearZero newVelocity
                    then Inr (st\<lparr>state := IDLE, target := newTarget,
                                 velocity := \<lparr>theta = 0, phi = 0\<rparr>\<rparr>)
                    else Inr (st\<lparr>target := newTarget, velocity := newVelocity\<rparr>))))"

definition setZoomTarget :: "InteractionState_Internal \<Rightarrow> real \<Rightarrow> InteractionState_Internal" where
  "setZoomTarget st z =
     st\<lparr>targetZoom := clamp z (minZoom (config st)) (maxZoom (config st))\<rparr>"

definition applyWheelZoom :: "InteractionState_Internal \<Rightarrow> real \<Rightarrow> InteractionState_Internal" where
  "applyWheelZoom st deltaY =
     (let zoomDelta = deltaY * WHEEL_ZOOM_SENSITIVITY;
          newTargetZoom = targetZoom st + zoomDelta
      in setZoomTarget st newTargetZoom)"

definition applyPinchZoom :: "InteractionState_Internal \<Rightarrow> real \<Rightarrow> InteractionState_Internal" where
  "applyPinchZoom st scale =
     (let newTargetZoom = targetZoom st * scale in setZoomTarget st newTargetZoom)"

definition commitZoom :: "InteractionState_Internal \<Rightarrow> real \<Rightarrow> InteractionState_Internal" where
  "commitZoom st dtMs =
     (let newZoom = easeExp (zoom st) (targetZoom st) ZOOM_EASE_LAMBDA dtMs
      in st\<lparr>zoom := newZoom\<rparr>)"

definition setKeyboardFocus :: "InteractionState_Internal \<Rightarrow> bool \<Rightarrow> InteractionState_Internal" where
  "setKeyboardFocus st focused = st\<lparr>isKeyboardFocused := focused\<rparr>"

text \<open>The direction arguments of \<^verbatim>\<open>nudgeOrbitFromKeys\<close> have the type \<^verbatim>\<open>-1 | 0 | 1\<close>.\<close>

datatype KeyDir = DirMinus | DirZero | DirPlus

fun dirValue :: "KeyDir \<Rightarrow> real" where
  "dirValue DirMinus = - 1"
| "dirValue DirZero = 0"
| "dirValue DirPlus = 1"

definition nudgeOrbitFromKeys ::
  "InteractionState_Internal \<Rightarrow> KeyDir \<Rightarrow> KeyDir \<Rightarrow> real \<Rightarrow> NotReal + InteractionState_Internal" where
  "nudgeOrbitFromKeys st xDir yDir dtMs =
     (if xDir = DirZero \<and> yDir = DirZero then Inr st
      else
        (let cfg = config st;
             lim = getElevationLimits cfg;
             dtSec = dtMs / 1000;
             speed = KEYBOARD_NUDGE_SPEED * dragSensitivity cfg;
             dTheta = - dirValue xDir * speed * dtSec;
             dPhi = dirValue yDir * speed * dtSec;
             newTarget = \<lparr>theta = wrapTheta_store (theta (target st) + dTheta),
                          phi = clamp (phi (target st) + dPhi) (minPhi lim) (maxPhi lim)\<rparr>
         in case js_div dTheta dtSec of
              Inl e \<Rightarrow> Inl e
            | Inr vTheta \<Rightarrow>
                (case js_div dPhi dtSec of
                   Inl e \<Rightarrow> Inl e
                 | Inr vPhi \<Rightarrow>
                     Inr (st\<lparr>target := newTarget,
                             velocity := \<lparr>theta = vTheta, phi = vPhi\<rparr>,
                             state := (if state st = IDLE then INERTIA else state st)\<rparr>))))"

definition reset :: "InteractionState_Internal \<Rightarrow> InteractionState_Internal" where
  "reset st = initialState"







section \<open>Star field (Starfield.tsx)\<close>

text \<open>
  \<^verbatim>\<open>createSeededRandom\<close> returns a closure over a private variable \<^verbatim>\<open>state\<close>, and every
  call of the closure overwrites that variable. The heap has one cell for each closure
  created so far; a closure is the index of its cell. The seed is an integer, and
  \<^verbatim>\<open>%\<close> is the remainder that takes the sign of the dividend.
\<close>

type_synonym heap = "int list"

definition js_rem :: "int \<Rightarrow> int \<Rightarrow> int" where
  "js_rem a b = sgn a * (\<bar>a\<bar> mod \<bar>b\<bar>)"


definition random :: "nat \<Rightarrow> heap \<Rightarrow> real \<times> heap" where
  "random g h =
     (let state1 = js_rem (h ! g * 16807) 2147483647
      in (real_of_int (state1 - 1) / 2147483646, h[g := state1]))"

text \<open>
  The \<^verbatim>\<open>do ... while (w >= 1.0)\<close> loop of the Marsaglia method. Nothing bounds the number
  of its rounds, so it is a partial function: \<open>None\<close> is a loop that never ends.
\<close>

partial_function (option) marsaglia ::
  "nat \<Rightarrow> heap \<Rightarrow> ((real \<times> real \<times> real) \<times> heap) option" where
  "marsaglia g h =
     (case random g h of (u1, h1) \<Rightarrow>
      case random g h1 of (u2, h2) \<Rightarrow>
        (let x1 = 2 * u1 - 1;
             x2 = 2 * u2 - 1;
             w = x1 * x1 + x2 * x2
         in if w \<ge> 1 then marsaglia g h2 else Some ((x1, x2, w), h2)))"

text \<open>
  A position is a \<^verbatim>\<open>THREE.Vector3\<close>. With \<open>w = 0\<close> the logarithm is infinite, and with a
  zero length the normalisation divides zero by zero: the components of the vector are
  NaN then.
\<close>

datatype Position = Vector3 real real real | NaNVector

text \<open>The \<^verbatim>\<open>for\<close> loop, by the number of rounds that remain; positions in the order pushed.\<close>

fun positionsLoop :: "nat \<Rightarrow> real \<Rightarrow> nat \<Rightarrow> heap \<Rightarrow> (Position list \<times> heap) option" where
  "positionsLoop 0 radius g h = Some ([], h)"
| "positionsLoop (Suc n) radius g h =
     (case marsaglia g h of
        None \<Rightarrow> None
      | Some ((x1, x2, w), h1) \<Rightarrow>
          (case random g h1 of (u3, h2) \<Rightarrow>
           case random g h2 of (u4, h3) \<Rightarrow>
             (let sqrtW = sqrt ((- 2 * ln w) / w);
                  y = x1 * sqrtW;
                  z = x2 * sqrtW;
                  x = 2 * u3 - 1;
                  len = sqrt (x * x + y * y + z * z);
                  r = radius * root 3 u4;
                  p = (if w = 0 \<or> len = 0 then NaNVector
                       else Vector3 ((x / len) * r) ((y / len) * r) ((z / len) * r))
              in case positionsLoop n radius g h3 of
                   None \<Rightarrow> None
                 | Some (ps, h4) \<Rightarrow> Some (p # ps, h4))))"




section \<open>Verified properties\<close>

subsection \<open>Tier decision\<close>

text \<open>
  Claim C1, as the code has it. On a mobile device neither revision of \<^verbatim>\<open>decideTier\<close> ever
  returns HIGH. The revision with the single threshold returns MEDIUM exactly when
  \<open>fps \<ge> 50\<close> and LOW exactly when \<open>fps < 50\<close>; the revision the unit tests exercise
  returns MEDIUM exactly when \<open>fps \<ge> 35\<close> and LOW exactly when \<open>fps < 35\<close>.
\<close>

theorem decideTier_mobile_never_HIGH:
  "decideTier fps True \<noteq> HIGH
   \<and> (decideTier fps True = MEDIUM) = (35 \<le> fps)
   \<and> (decideTier fps True = LOW) = (fps < 35)
   \<and> decideTier_rev fps True \<noteq> HIGH
   \<and> (decideTier_rev fps True = MEDIUM) = (50 \<le> fps)
   \<and> (decideTier_rev fps True = LOW) = (fps < 50)"
  by (simp add: decideTier_def decideTier_rev_def)

theorem decideTier_mobile_never_HIGH_witness:
  "decideTier 120 True = MEDIUM \<and> decideTier_rev 120 True = MEDIUM
   \<and> decideTier 34 True = LOW \<and> decideTier_rev 49 True = LOW"
  using decideTier_mobile_never_HIGH [of 120] decideTier_mobile_never_HIGH [of 34]
        decideTier_mobile_never_HIGH [of 49]
  by simp

text \<open>
  Claim C1 as stated fails for the revision under test: at 40 fps, which is below 50, a
  mobile device gets MEDIUM, not LOW.
\<close>

theorem decideTier_mobile_40_counterexample:
  "(40::real) < 50 \<and> decideTier 40 True = MEDIUM \<and> decideTier 40 True \<noteq> LOW"
  by (simp add: decideTier_def)

text \<open>
  Claim C7. On a desktop device both revisions return HIGH exactly when \<open>fps \<ge> 55\<close>,
  MEDIUM exactly when \<open>40 \<le> fps < 55\<close> and LOW exactly when \<open>fps < 40\<close>; the boundary
  values 55 and 40 belong to the upper branch.
\<close>

theorem decideTier_desktop_thresholds:
  "(decideTier fps False = HIGH) = (55 \<le> fps)
   \<and> (decideTier fps False = MEDIUM) = (40 \<le> fps \<and> fps < 55)
   \<and> (decideTier fps False = LOW) = (fps < 40)
   \<and> decideTier 55 False = HIGH \<and> decideTier 40 False = MEDIUM
   \<and> (decideTier_rev fps False = HIGH) = (55 \<le> fps)
   \<and> (decideTier_rev fps False = MEDIUM) = (40 \<le> fps \<and> fps < 55)
   \<and> (decideTier_rev fps False = LOW) = (fps < 40)
   \<and> decideTier_rev 55 False = HIGH \<and> decideTier_rev 40 False = MEDIUM"
  by (simp add: decideTier_def decideTier_rev_def)

theorem decideTier_desktop_thresholds_witness:
  "decideTier (549 / 10) False = MEDIUM \<and> decideTier_rev (549 / 10) False = MEDIUM
   \<and> decideTier 39 False = LOW \<and> decideTier_rev 60 False = HIGH"
  using decideTier_desktop_thresholds [of "549 / 10"] decideTier_desktop_thresholds [of 39]
        decideTier_desktop_thresholds [of 60]
  by simp

subsection \<open>Capability evaluation outside a browser\<close>

text \<open>
  Claim C8, as the code has it. Where the window or its document is missing, both revisions
  of \<^verbatim>\<open>evaluateDeviceCaps\<close> resolve (they do not throw) to the capabilities with WebGL
  unavailable, version 0, tier LOW with the LOW configuration, both pixel ratios 1 and an
  fps estimate of 0; the reason is the string \<^verbatim>\<open>Server-side rendering environment\<close>.
\<close>

theorem evaluateDeviceCaps_server_side:
  assumes "\<not> (hasWindow env \<and> hasDocument env)"
  shows "evaluateDeviceCaps env =
           Inr \<lparr>isWebGLAvailable = False, webglVersion = 0,
                reason = Some ''Server-side rendering environment'',
                isMobile = False, dpr = 1, clampedDpr = 1, fpsEstimate = Some 0,
                tier = LOW, caps_config = QUALITY_CONFIG LOW\<rparr>
         \<and> evaluateDeviceCaps_rev env = evaluateDeviceCaps env"
  using assms
  by (simp add: evaluateDeviceCaps_def evaluateDeviceCaps_rev_def isBrowser_def
      getQualityConfig_def)

theorem evaluateDeviceCaps_server_side_witness:
  "evaluateDeviceCaps
     \<lparr>hasWindow = False, hasDocument = False, navigatorUA = None, devicePixelRatio = 1,
      webgl = ProbeContexts False False False, measuredFps = 0\<rparr> =
   Inr \<lparr>isWebGLAvailable = False, webglVersion = 0,
        reason = Some ''Server-side rendering environment'',
        isMobile = False, dpr = 1, clampedDpr = 1, fpsEstimate = Some 0,
        tier = LOW, caps_config = QUALITY_CONFIG LOW\<rparr>"
  using evaluateDeviceCaps_server_side
          [of "\<lparr>hasWindow = False, hasDocument = False, navigatorUA = None,
                devicePixelRatio = 1, webgl = ProbeContexts False False False,
                measuredFps = 0\<rparr>"]
  by simp

text \<open>
  Claim C8 as stated names the reason \<^verbatim>\<open>non-interactive environment\<close>; outside a browser
  neither revision returns the capabilities with that reason.
\<close>

theorem evaluateDeviceCaps_reason_counterexample:
  "evaluateDeviceCaps
     \<lparr>hasWindow = False, hasDocument = False, navigatorUA = None, devicePixelRatio = 1,
      webgl = ProbeContexts False False False, measuredFps = 0\<rparr> \<noteq>
   Inr \<lparr>isWebGLAvailable = False, webglVersion = 0,
        reason = Some ''non-interactive environment'',
        isMobile = False, dpr = 1, clampedDpr = 1, fpsEstimate = Some 0,
        tier = LOW, caps_config = getQualityConfig LOW\<rparr>
   \<and> evaluateDeviceCaps_rev
     \<lparr>hasWindow = False, hasDocument = False, navigatorUA = None, devicePixelRatio = 1,
      webgl = ProbeContexts False False False, measuredFps = 0\<rparr> \<noteq>
   Inr \<lparr>isWebGLAvailable = False, webglVersion = 0,
        reason = Some ''non-interactive environment'',
        isMobile = False, dpr = 1, clampedDpr = 1, fpsEstimate = Some 0,
        tier = LOW, caps_config = getQualityConfig LOW\<rparr>"
  by (simp add: evaluateDeviceCaps_def evaluateDeviceCaps_rev_def isBrowser_def)

subsection \<open>The drag lifecycle\<close>

text \<open>
  Claim C3. For every store, after \<^verbatim>\<open>endDrag(ts)\<close> the machine is IDLE when both velocity
  components are below \<open>1e-4\<close> in absolute value and INERTIA otherwise; the velocity is
  the one before the call, and the machine is never left DRAGGING.
\<close>

theorem endDrag_leaves_IDLE_or_INERTIA:
  "state (endDrag st ts) =
     (if \<bar>theta (velocity st)\<bar> < 1 / 10000 \<and> \<bar>phi (velocity st)\<bar> < 1 / 10000
      then IDLE else INERTIA)
   \<and> velocity (endDrag st ts) = velocity st
   \<and> state (endDrag st ts) \<noteq> DRAGGING"
  by (simp add: endDrag_def isNearZero_def VELOCITY_EPSILON_def)

theorem endDrag_leaves_IDLE_or_INERTIA_witness:
  "state (endDrag (initialState\<lparr>state := DRAGGING,
                       velocity := \<lparr>theta = - 15625 / 1000, phi = 0\<rparr>\<rparr>) 16) = INERTIA
   \<and> state (endDrag (initialState\<lparr>state := DRAGGING\<rparr>) 16) = IDLE"
  using endDrag_leaves_IDLE_or_INERTIA
          [of "initialState\<lparr>state := DRAGGING, velocity := \<lparr>theta = - 15625 / 1000, phi = 0\<rparr>\<rparr>" 16]
        endDrag_leaves_IDLE_or_INERTIA [of "initialState\<lparr>state := DRAGGING\<rparr>" 16]
  by (simp add: initialState_def)



subsection \<open>Inertia\<close>

text \<open>
  Claim C10. Whenever the machine is not in INERTIA, \<^verbatim>\<open>tickInertia(dtMs)\<close> returns the
  store it was given, every field unchanged, for every \<^verbatim>\<open>dtMs\<close>.
\<close>

theorem tickInertia_noop_unless_INERTIA:
  "state st \<noteq> INERTIA \<Longrightarrow> tickInertia st dtMs = Inr st"
  by (simp add: tickInertia_def)

theorem tickInertia_noop_unless_INERTIA_witness:
  "state (beginDrag initialState 0) = DRAGGING
   \<and> tickInertia (beginDrag initialState 0) 16 = Inr (beginDrag initialState 0)
   \<and> tickInertia initialState 16 = Inr initialState"
  using tickInertia_noop_unless_INERTIA [of "beginDrag initialState 0" 16]
        tickInertia_noop_unless_INERTIA [of initialState 16]
  by (simp add: beginDrag_def initialState_def)

subsection \<open>Angle wrapping\<close>















subsection \<open>Elevation clamp\<close>














text \<open>
  Unlike \<^verbatim>\<open>updateDrag\<close>, \<^verbatim>\<open>nudgeOrbitFromKeys\<close> divides by the elapsed seconds as they
  are: with \<^verbatim>\<open>dtMs = 0\<close> both deltas are zero, and the velocity it stores is zero divided
  by zero.
\<close>

lemma nudgeOrbitFromKeys_zero_dt:
  "xDir \<noteq> DirZero \<or> yDir \<noteq> DirZero \<Longrightarrow> nudgeOrbitFromKeys st xDir yDir 0 = Inl IsNaN"
  by (simp add: nudgeOrbitFromKeys_def Let_def js_div_def)






subsection \<open>Damping convergence\<close>






subsection \<open>Deterministic star positions\<close>








text \<open>The default seed 1337: two positions, after one rejected pair.\<close>

lemma positionsLoop_length:
  "positionsLoop n radius g h = Some (ps, h') \<Longrightarrow> length ps = n"
proof (induction n arbitrary: h ps)
  case 0
  then show ?case by simp
next
  case (Suc n)
  then show ?case
    by (auto simp: Let_def split: option.splits prod.splits)
qed









end
